theory Spec2Isabelle
  imports Main
begin

section \<open>Data model\<close>

text \<open>
  The repository is a Django application: \<^verbatim>\<open>apps/core/models.py\<close> declares the
  models \<^verbatim>\<open>SystemSettings\<close> and \<^verbatim>\<open>RoomActivityLog\<close>, and
  \<^verbatim>\<open>apps/core/admin.py\<close> their admin classes. The database is modelled as two
  tables; every ORM call the source makes is a function on the state \<open>world\<close>.

  Timestamps are integers (microseconds since the epoch); a reading of the clock
  (\<^verbatim>\<open>timezone.now()\<close>, \<^verbatim>\<open>datetime.now()\<close>) is an explicit argument of the operation
  that takes it. A Python \<^verbatim>\<open>str\<close> is a \<open>string\<close>, one \<open>char\<close> per character; the
  source only compares strings, takes their length and slices them.
\<close>

type_synonym time = int
type_synonym salt = string

text \<open>A row of the table of \<^verbatim>\<open>SystemSettings\<close>: the four columns beside the key.\<close>

record settings_row =
  col_access_password_hash :: string
  col_created_at :: time
  col_updated_at :: time
  col_is_active :: bool

text \<open>
  An instance of \<^verbatim>\<open>SystemSettings\<close> in memory. \<open>pk\<close> is \<open>None\<close> on an instance that
  was never saved; the two timestamps are \<open>None\<close> until \<^verbatim>\<open>auto_now_add\<close> and
  \<^verbatim>\<open>auto_now\<close> set them.
\<close>

record system_settings =
  pk :: "int option"
  access_password_hash :: string
  created_at :: "time option"
  updated_at :: "time option"
  is_active :: bool

datatype action = Room_created | User_joined | User_left | Room_expired | Room_deleted

record room_activity_log =
  log_id :: int
  room_id :: string
  log_action :: action
  timestamp :: time
  participant_count :: nat
  ip_address :: "string option"
  user_agent_hash :: "string option"

text \<open>The ORM calls of the source, one constructor per call site kind.\<close>

datatype orm_call =
    Settings_first int
  | Settings_exists int
  | Settings_update int
  | Settings_get int
  | Settings_insert int
  | Settings_refresh int
  | Logs_delete_older time

text \<open>
  The four messages \<^verbatim>\<open>SystemSettingsForm.clean\<close> raises a \<^verbatim>\<open>ValidationError\<close> with, in
  the order of the source; the last one is the spec's reason \<^verbatim>\<open>too_short\<close>.
\<close>

datatype validation_message =
    Enter_new_password
  | Confirm_the_password
  | Passwords_do_not_match
  | Password_min_6_chars

datatype error = DoesNotExist | ValidationError validation_message

text \<open>The records written with \<^verbatim>\<open>logger.info\<close> and \<^verbatim>\<open>logger.error\<close> in \<^verbatim>\<open>save_model\<close>.\<close>

datatype log_record =
    Info_setting_new_password
  | Info_saving bool string
  | Info_saved nat
  | Info_password_verified
  | Error_password_not_saved
  | Info_retried_saving
  | Error_verifying error

text \<open>The messages shown to the administrator with \<^verbatim>\<open>message_user\<close>.\<close>

datatype user_message = Password_changed | Old_logs_deleted nat

record world =
  settings_tbl :: "int \<rightharpoonup> settings_row"
  logs_tbl :: "room_activity_log list"
  orm_trace :: "orm_call list"
  logger :: "log_record list"
  messages :: "user_message list"

record request =
  is_superuser :: bool

text \<open>
  \<^verbatim>\<open>django.contrib.auth.hashers\<close> is a library, not part of the repository: its two
  functions are parameters of the model. \<^verbatim>\<open>make_password\<close> draws a random salt, here
  its first argument; \<open>check_password H raw encoded\<close> is
  \<^verbatim>\<open>check_password(raw, encoded)\<close>.
\<close>

record hasher =
  make_password :: "salt \<Rightarrow> string \<Rightarrow> string"
  check_password :: "string \<Rightarrow> string \<Rightarrow> bool"

definition default_password :: string where
  "default_password = ''admin123''"

section \<open>The ORM calls\<close>

definition traced :: "orm_call \<Rightarrow> world \<Rightarrow> world" where
  "traced c w = w\<lparr>orm_trace := orm_trace w @ [c]\<rparr>"

definition logged :: "log_record \<Rightarrow> world \<Rightarrow> world" where
  "logged r w = w\<lparr>logger := logger w @ [r]\<rparr>"

definition message_user :: "user_message \<Rightarrow> world \<Rightarrow> world" where
  "message_user m w = w\<lparr>messages := messages w @ [m]\<rparr>"

text \<open>The instance Django builds from a row it has read.\<close>

definition from_db :: "int \<Rightarrow> settings_row \<Rightarrow> system_settings" where
  "from_db k r =
     \<lparr>pk = Some k,
      access_password_hash = col_access_password_hash r,
      created_at = Some (col_created_at r),
      updated_at = Some (col_updated_at r),
      is_active = col_is_active r\<rparr>"

text \<open>\<^verbatim>\<open>SystemSettings.objects.filter(pk=k).first()\<close>\<close>

definition settings_first :: "int \<Rightarrow> world \<Rightarrow> system_settings option \<times> world" where
  "settings_first k w =
     (map_option (from_db k) (settings_tbl w k), traced (Settings_first k) w)"

text \<open>\<^verbatim>\<open>SystemSettings.objects.filter(pk=k).exists()\<close>\<close>

definition settings_exists :: "int \<Rightarrow> world \<Rightarrow> bool \<times> world" where
  "settings_exists k w = (settings_tbl w k \<noteq> None, traced (Settings_exists k) w)"

text \<open>
  \<^verbatim>\<open>SystemSettings.objects.filter(pk=k).update(access_password_hash=h, is_active=a)\<close>:
  one UPDATE that sets the two named columns of the rows it matches. It does not go
  through \<^verbatim>\<open>Model.save\<close>, so no field's \<^verbatim>\<open>pre_save\<close> runs: \<^verbatim>\<open>auto_now\<close> does not
  touch \<^verbatim>\<open>updated_at\<close> here.
\<close>

definition settings_update :: "int \<Rightarrow> string \<Rightarrow> bool \<Rightarrow> world \<Rightarrow> world" where
  "settings_update k h a w =
     traced (Settings_update k)
       (case settings_tbl w k of
          None \<Rightarrow> w
        | Some r \<Rightarrow>
            w\<lparr>settings_tbl := (settings_tbl w)
                 (k \<mapsto> r\<lparr>col_access_password_hash := h, col_is_active := a\<rparr>)\<rparr>)"

text \<open>\<^verbatim>\<open>SystemSettings.objects.get(pk=k)\<close>, which raises \<^verbatim>\<open>DoesNotExist\<close>.\<close>

definition settings_get :: "int \<Rightarrow> world \<Rightarrow> (error + system_settings) \<times> world" where
  "settings_get k w =
     (case settings_tbl w k of
        None \<Rightarrow> (Inl DoesNotExist, traced (Settings_get k) w)
      | Some r \<Rightarrow> (Inr (from_db k r), traced (Settings_get k) w))"

text \<open>
  \<^verbatim>\<open>super().save(force_insert=True, force_update=False)\<close> on an instance whose key
  is \<open>k\<close>, called where no row has that key: \<^verbatim>\<open>auto_now_add\<close> and \<^verbatim>\<open>auto_now\<close> set both
  timestamps of the instance to the clock's reading, and the row is inserted.
\<close>

definition model_save_insert ::
  "time \<Rightarrow> int \<Rightarrow> system_settings \<Rightarrow> world \<Rightarrow> system_settings \<times> world" where
  "model_save_insert now k self w =
     (self\<lparr>pk := Some k, created_at := Some now, updated_at := Some now\<rparr>,
      traced (Settings_insert k)
        (w\<lparr>settings_tbl := (settings_tbl w)
             (k \<mapsto> \<lparr>col_access_password_hash = access_password_hash self,
                    col_created_at = now,
                    col_updated_at = now,
                    col_is_active = is_active self\<rparr>)\<rparr>))"

text \<open>\<^verbatim>\<open>refresh_from_db()\<close>: reloads every field from the row of the instance's key.\<close>

definition refresh_from_db ::
  "system_settings \<Rightarrow> world \<Rightarrow> (error + system_settings) \<times> world" where
  "refresh_from_db self w =
     (case pk self of
        None \<Rightarrow> (Inl DoesNotExist, w)
      | Some k \<Rightarrow>
          (case settings_tbl w k of
             None \<Rightarrow> (Inl DoesNotExist, traced (Settings_refresh k) w)
           | Some r \<Rightarrow> (Inr (from_db k r), traced (Settings_refresh k) w)))"

section \<open>SystemSettings\<close>

definition set_password :: "hasher \<Rightarrow> salt \<Rightarrow> system_settings \<Rightarrow> string \<Rightarrow> system_settings" where
  "set_password H s self raw_password =
     self\<lparr>access_password_hash := make_password H s raw_password\<rparr>"

definition settings_check_password :: "hasher \<Rightarrow> system_settings \<Rightarrow> string \<Rightarrow> bool" where
  "settings_check_password H self raw_password =
     check_password H raw_password (access_password_hash self)"

text \<open>
  \<^verbatim>\<open>SystemSettings.save\<close>: the key is set to 1 first; an existing row is updated with
  \<^verbatim>\<open>QuerySet.update\<close> and the instance takes \<open>id\<close>, \<open>created_at\<close> and \<open>updated_at\<close>
  from the row read back; otherwise the instance is inserted.
\<close>

definition save :: "time \<Rightarrow> system_settings \<Rightarrow> world \<Rightarrow> system_settings \<times> world" where
  "save now self0 w0 =
     (let self = self0\<lparr>pk := Some 1\<rparr>;
          (found, w1) = settings_exists 1 w0
      in if found then
           (let w2 = settings_update 1 (access_password_hash self) (is_active self) w1;
                (got, w3) = settings_get 1 w2
            in case got of
                 Inr db_obj \<Rightarrow>
                   (self\<lparr>pk := pk db_obj,
                         created_at := created_at db_obj,
                         updated_at := updated_at db_obj\<rparr>, w3)
               | Inl e \<Rightarrow> (self, w3))
         else model_save_insert now 1 self w1)"

text \<open>
  \<^verbatim>\<open>SystemSettings.delete\<close>: the body is \<^verbatim>\<open>pass\<close>, so the call returns \<^verbatim>\<open>None\<close>
  and makes no ORM call.
\<close>

definition delete :: "system_settings \<Rightarrow> world \<Rightarrow> (error + unit) \<times> world" where
  "delete self w = (Inr (), w)"

text \<open>
  \<^verbatim>\<open>cls.objects.create(**kwargs)\<close>: builds the instance, saves it with the model's
  \<^verbatim>\<open>save\<close> and returns it.
\<close>

definition create :: "time \<Rightarrow> system_settings \<Rightarrow> world \<Rightarrow> system_settings \<times> world" where
  "create now obj w = save now obj w"

definition get_settings ::
  "hasher \<Rightarrow> salt \<Rightarrow> time \<Rightarrow> world \<Rightarrow> (error + system_settings) \<times> world" where
  "get_settings H s now w0 =
     (let (settings, w1) = settings_first 1 w0
      in case settings of
           None \<Rightarrow>
             (let (obj, w2) =
                    create now
                      \<lparr>pk = Some 1,
                       access_password_hash = make_password H s default_password,
                       created_at = None,
                       updated_at = None,
                       is_active = True\<rparr> w1
              in (Inr obj, w2))
         | Some obj \<Rightarrow> refresh_from_db obj w1)"

section \<open>SystemSettingsForm and SystemSettingsAdmin\<close>

text \<open>
  \<^verbatim>\<open>cleaned_data\<close> after the fields were cleaned: \<^verbatim>\<open>.get\<close> gives \<open>None\<close> for a key
  that is absent. \<^verbatim>\<open>changed_data\<close> is the list of the names of the fields whose value
  differs from the initial one.
\<close>

record cleaned_data =
  new_password :: "string option"
  confirm_password :: "string option"

record form =
  form_cleaned_data :: cleaned_data
  changed_data :: "string list"

text \<open>Python's truth value of \<^verbatim>\<open>cleaned_data.get(...)\<close>: \<open>None\<close> and the empty string are false.\<close>

definition truthy :: "string option \<Rightarrow> bool" where
  "truthy v = (case v of None \<Rightarrow> False | Some s \<Rightarrow> s \<noteq> [])"


text \<open>
  The random salts of the four \<^verbatim>\<open>set_password\<close> calls of \<^verbatim>\<open>save_model\<close> and the
  clock's readings of its two \<^verbatim>\<open>save\<close> calls.
\<close>

record draws =
  salt_absent :: salt
  salt_new :: salt
  salt_unset :: salt
  salt_retry :: salt
  now_save :: time
  now_retry :: time

text \<open>Lines 89 to 98 of \<^verbatim>\<open>admin.py\<close>: the first \<^verbatim>\<open>try\<close> block of \<^verbatim>\<open>save_model\<close>.\<close>

definition copy_existing_first ::
  "form \<Rightarrow> (error + system_settings) \<Rightarrow> system_settings \<Rightarrow> system_settings" where
  "copy_existing_first f got obj =
     (case got of
        Inl e \<Rightarrow> obj
      | Inr existing_obj \<Rightarrow>
          (let obj1 = (if \<not> truthy (new_password (form_cleaned_data f))
                       then obj\<lparr>access_password_hash := access_password_hash existing_obj\<rparr>
                       else obj)
           in if ''is_active'' \<notin> set (changed_data f)
              then obj1\<lparr>is_active := is_active existing_obj\<rparr>
              else obj1))"

text \<open>Lines 101 to 112: the second \<^verbatim>\<open>try\<close> block.\<close>

definition copy_existing_second ::
  "hasher \<Rightarrow> draws \<Rightarrow> form \<Rightarrow> (error + system_settings) \<Rightarrow> system_settings \<Rightarrow> system_settings" where
  "copy_existing_second H d f got obj =
     (case got of
        Inl e \<Rightarrow>
          (if \<not> truthy (new_password (form_cleaned_data f))
           then set_password H (salt_absent d) obj default_password
           else obj)
      | Inr existing_obj \<Rightarrow>
          (let obj1 = (if \<not> truthy (new_password (form_cleaned_data f))
                       then obj\<lparr>access_password_hash := access_password_hash existing_obj\<rparr>
                       else obj)
           in if changed_data f = [] \<or> ''is_active'' \<notin> set (changed_data f)
              then obj1\<lparr>is_active :=
                         (if changed_data f = [] then is_active existing_obj else is_active obj1)\<rparr>
              else obj1))"

text \<open>Lines 114 to 127: the new password, then the default when the hash is still empty.\<close>

definition apply_new_password ::
  "hasher \<Rightarrow> draws \<Rightarrow> form \<Rightarrow> system_settings \<Rightarrow> world \<Rightarrow> system_settings \<times> world" where
  "apply_new_password H d f obj w =
     (let (obj1, w1) =
            (case new_password (form_cleaned_data f) of
               None \<Rightarrow> (obj, w)
             | Some p \<Rightarrow>
                 if p = [] then (obj, w)
                 else (set_password H (salt_new d) obj p,
                       message_user Password_changed (logged Info_setting_new_password w)))
      in if access_password_hash obj1 = []
         then (set_password H (salt_unset d) obj1 default_password, w1)
         else (obj1, w1))"

text \<open>Lines 137 to 149: the check after the save, inside \<^verbatim>\<open>try ... except Exception\<close>.\<close>

definition verify_saved :: "hasher \<Rightarrow> draws \<Rightarrow> form \<Rightarrow> world \<Rightarrow> (error + unit) \<times> world" where
  "verify_saved H d f w =
     (let (got, w1) = settings_get 1 w
      in case got of
           Inl e \<Rightarrow> (Inr (), logged (Error_verifying e) w1)
         | Inr saved_obj \<Rightarrow>
             (let w2 = logged (Info_saved (length (access_password_hash saved_obj))) w1
              in case new_password (form_cleaned_data f) of
                   None \<Rightarrow> (Inr (), w2)
                 | Some p \<Rightarrow>
                     if p = [] then (Inr (), w2)
                     else if settings_check_password H saved_obj p
                     then (Inr (), logged Info_password_verified w2)
                     else
                       (let w3 = logged Error_password_not_saved w2;
                            (saved1, w4) =
                              save (now_retry d) (set_password H (salt_retry d) saved_obj p) w3
                        in (Inr (), logged Info_retried_saving w4))))"

text \<open>Lines 83 to 134 of \<^verbatim>\<open>save_model\<close>: everything up to and including \<^verbatim>\<open>obj.save()\<close>.\<close>

definition save_model_write ::
  "hasher \<Rightarrow> draws \<Rightarrow> request \<Rightarrow> system_settings \<Rightarrow> form \<Rightarrow> bool \<Rightarrow> world \<Rightarrow> world" where
  "save_model_write H d req obj0 f change w0 =
     (let obj1 = obj0\<lparr>pk := Some 1\<rparr>;
          (got1, w1) = settings_get 1 w0;
          obj2 = copy_existing_first f got1 obj1;
          (got2, w2) = settings_get 1 w1;
          obj3 = copy_existing_second H d f got2 obj2;
          (obj4, w3) = apply_new_password H d f obj3 w2;
          w4 = logged (Info_saving (access_password_hash obj4 \<noteq> [])
                 (if access_password_hash obj4 \<noteq> [] then take 30 (access_password_hash obj4)
                  else ''None'')) w3;
          (obj5, w5) = save (now_save d) obj4 w4
      in w5)"

definition save_model ::
  "hasher \<Rightarrow> draws \<Rightarrow> request \<Rightarrow> system_settings \<Rightarrow> form \<Rightarrow> bool \<Rightarrow> world
     \<Rightarrow> (error + unit) \<times> world" where
  "save_model H d req obj f change w =
     verify_saved H d f (save_model_write H d req obj f change w)"

definition has_delete_permission :: "request \<Rightarrow> system_settings option \<Rightarrow> bool" where
  "has_delete_permission req obj = False"


section \<open>RoomActivityLogAdmin\<close>

definition thirty_days :: time where
  "thirty_days = 30 * 24 * 60 * 60 * 1000000"

text \<open>
  \<^verbatim>\<open>RoomActivityLog.objects.filter(timestamp__lt=old_date).delete()\<close>: the rows that
  match are removed, and the first component of the result is their number.
\<close>

definition logs_delete_older :: "time \<Rightarrow> world \<Rightarrow> nat \<times> world" where
  "logs_delete_older old_date w =
     (length (filter (\<lambda>r. timestamp r < old_date) (logs_tbl w)),
      traced (Logs_delete_older old_date)
        (w\<lparr>logs_tbl := filter (\<lambda>r. \<not> timestamp r < old_date) (logs_tbl w)\<rparr>))"

text \<open>
  \<^verbatim>\<open>delete_old_logs(self, request, queryset)\<close>; \<open>now\<close> is the reading of
  \<^verbatim>\<open>datetime.now()\<close> and \<open>queryset\<close> the rows the administrator selected.
\<close>

definition delete_old_logs ::
  "request \<Rightarrow> room_activity_log list \<Rightarrow> time \<Rightarrow> world \<Rightarrow> world" where
  "delete_old_logs req queryset now w =
     (let old_date = now - thirty_days;
          (count, w1) = logs_delete_older old_date w
      in message_user (Old_logs_deleted count) w1)"

section \<open>Sequences of calls on the settings\<close>

text \<open>
  The calls a client of the settings makes: \<^verbatim>\<open>get_settings()\<close>; setting a password on
  an instance it holds and saving it; setting the active flag on an instance and saving
  it; and the admin's \<^verbatim>\<open>save_model\<close>. The instance is any instance: fresh, stale or
  never saved.
\<close>

datatype call =
    Call_get_settings salt time
  | Call_set_password system_settings string salt time
  | Call_set_active system_settings bool time
  | Call_save_model draws request system_settings form bool

definition exec_call :: "hasher \<Rightarrow> call \<Rightarrow> world \<Rightarrow> world" where
  "exec_call H c w =
     (case c of
        Call_get_settings s now \<Rightarrow> snd (get_settings H s now w)
      | Call_set_password obj p s now \<Rightarrow> snd (save now (set_password H s obj p) w)
      | Call_set_active obj flag now \<Rightarrow> snd (save now (obj\<lparr>is_active := flag\<rparr>) w)
      | Call_save_model d req obj f change \<Rightarrow> snd (save_model H d req obj f change w))"

fun run :: "hasher \<Rightarrow> call list \<Rightarrow> world \<Rightarrow> world" where
  "run H [] w = w"
| "run H (c # cs) w = run H cs (exec_call H c w)"

section \<open>Hashers and sample data\<close>

text \<open>
  The contract of the library's hasher that the password properties rest on: a hash made
  from \<open>p\<close> verifies \<open>p\<close> and no other password, whatever the salt.
\<close>

definition hasher_sound :: "hasher \<Rightarrow> bool" where
  "hasher_sound H = (\<forall>s p q. check_password H q (make_password H s p) = (q = p))"

text \<open>A hasher that satisfies the contract, and one whose verification always fails.\<close>

definition marking_hasher :: hasher where
  "marking_hasher =
     \<lparr>make_password = (\<lambda>s p. CHR ''#'' # p),
      check_password = (\<lambda>raw enc. enc = CHR ''#'' # raw)\<rparr>"


text \<open>
  The condition of the \<^verbatim>\<open>elif new_password\<close> branch of \<^verbatim>\<open>save_model\<close>, on the world
  the check reads: a new password was submitted and the stored hash does not verify it.
\<close>

definition must_retry :: "hasher \<Rightarrow> form \<Rightarrow> world \<Rightarrow> bool" where
  "must_retry H f w =
     (case new_password (form_cleaned_data f) of
        None \<Rightarrow> False
      | Some p \<Rightarrow>
          (case settings_tbl w 1 of
             None \<Rightarrow> False
           | Some r \<Rightarrow> p \<noteq> [] \<and> \<not> check_password H p (col_access_password_hash r)))"



text \<open>The row a \<^verbatim>\<open>save\<close> leaves under key 1, from the row that was there.\<close>

definition saved_row :: "time \<Rightarrow> system_settings \<Rightarrow> settings_row option \<Rightarrow> settings_row" where
  "saved_row now self old =
     (case old of
        None \<Rightarrow>
          \<lparr>col_access_password_hash = access_password_hash self, col_created_at = now,
           col_updated_at = now, col_is_active = is_active self\<rparr>
      | Some r \<Rightarrow>
          r\<lparr>col_access_password_hash := access_password_hash self,
            col_is_active := is_active self\<rparr>)"

definition empty_world :: world where
  "empty_world =
     \<lparr>settings_tbl = Map.empty, logs_tbl = [], orm_trace = [], logger = [], messages = []\<rparr>"

definition row0 :: settings_row where
  "row0 = \<lparr>col_access_password_hash = ''#admin123'', col_created_at = 100,
           col_updated_at = 100, col_is_active = True\<rparr>"

definition obj0 :: system_settings where
  "obj0 = \<lparr>pk = None, access_password_hash = [], created_at = None, updated_at = None,
           is_active = True\<rparr>"


definition req0 :: request where
  "req0 = \<lparr>is_superuser = True\<rparr>"


definition log_row :: "int \<Rightarrow> time \<Rightarrow> room_activity_log" where
  "log_row i t =
     \<lparr>log_id = i, room_id = ''abc123'', log_action = User_joined, timestamp = t,
      participant_count = 2, ip_address = None, user_agent_hash = None\<rparr>"

section \<open>What each operation does to the state\<close>

lemma traced_simps [simp]:
  "settings_tbl (traced c w) = settings_tbl w"
  "logs_tbl (traced c w) = logs_tbl w"
  "orm_trace (traced c w) = orm_trace w @ [c]"
  "logger (traced c w) = logger w"
  "messages (traced c w) = messages w"
  by (simp_all add: traced_def)

lemma logged_simps [simp]:
  "settings_tbl (logged r w) = settings_tbl w"
  "logs_tbl (logged r w) = logs_tbl w"
  "orm_trace (logged r w) = orm_trace w"
  "logger (logged r w) = logger w @ [r]"
  "messages (logged r w) = messages w"
  by (simp_all add: logged_def)

lemma message_user_simps [simp]:
  "settings_tbl (message_user m w) = settings_tbl w"
  "logs_tbl (message_user m w) = logs_tbl w"
  "orm_trace (message_user m w) = orm_trace w"
  "logger (message_user m w) = logger w"
  "messages (message_user m w) = messages w @ [m]"
  by (simp_all add: message_user_def)

lemma save_settings_tbl:
  "settings_tbl (snd (save now self w)) =
     (settings_tbl w)(1 \<mapsto> saved_row now self (settings_tbl w 1))"
  by (auto simp: save_def settings_exists_def settings_update_def settings_get_def
      model_save_insert_def saved_row_def Let_def split: option.splits)



lemma save_result:
  "fst (save now self w) =
     (case settings_tbl w 1 of
        None \<Rightarrow> self\<lparr>pk := Some 1, created_at := Some now, updated_at := Some now\<rparr>
      | Some r \<Rightarrow> self\<lparr>pk := Some 1, created_at := Some (col_created_at r),
                        updated_at := Some (col_updated_at r)\<rparr>)"
  by (auto simp: save_def settings_exists_def settings_update_def settings_get_def
      model_save_insert_def from_db_def Let_def split: option.splits)

lemma get_settings_tbl:
  "settings_tbl (snd (get_settings H s now w)) =
     (case settings_tbl w 1 of
        None \<Rightarrow> (settings_tbl w)(1 \<mapsto>
                   \<lparr>col_access_password_hash = make_password H s default_password,
                    col_created_at = now, col_updated_at = now, col_is_active = True\<rparr>)
      | Some r \<Rightarrow> settings_tbl w)"
  by (auto simp: get_settings_def settings_first_def create_def refresh_from_db_def from_db_def
      save_settings_tbl saved_row_def split_def Let_def split: option.splits)

lemma get_settings_result:
  "fst (get_settings H s now w) =
     (case settings_tbl w 1 of
        None \<Rightarrow> Inr \<lparr>pk = Some 1, access_password_hash = make_password H s default_password,
                     created_at = Some now, updated_at = Some now, is_active = True\<rparr>
      | Some r \<Rightarrow> Inr (from_db 1 r))"
  by (auto simp: get_settings_def settings_first_def create_def refresh_from_db_def from_db_def
      save_result split_def Let_def split: option.splits)



lemma verify_saved_tbl:
  "settings_tbl (snd (verify_saved H d f w)) =
     (if must_retry H f w
      then (settings_tbl w)(1 \<mapsto>
             (the (settings_tbl w 1))\<lparr>col_access_password_hash :=
                make_password H (salt_retry d) (the (new_password (form_cleaned_data f)))\<rparr>)
      else settings_tbl w)"
  by (auto simp: verify_saved_def settings_get_def split_def Let_def must_retry_def
      save_settings_tbl saved_row_def settings_check_password_def set_password_def from_db_def
      split: option.splits)

lemma verify_saved_dom:
  "dom (settings_tbl (snd (verify_saved H d f w))) = dom (settings_tbl w)"
  by (auto simp: verify_saved_tbl must_retry_def split: option.splits if_splits)


lemma apply_new_password_tbl:
  "settings_tbl (snd (apply_new_password H d f obj w)) = settings_tbl w"
  by (auto simp: apply_new_password_def split_def Let_def split: option.splits)

lemma save_model_write_dom:
  "dom (settings_tbl (save_model_write H d req obj f change w)) = insert 1 (dom (settings_tbl w))"
  by (simp add: save_model_write_def settings_get_def split_def Let_def save_settings_tbl
      apply_new_password_tbl split: option.splits)

lemma save_model_dom:
  "dom (settings_tbl (snd (save_model H d req obj f change w))) = insert 1 (dom (settings_tbl w))"
  by (simp add: save_model_def verify_saved_dom save_model_write_dom)

lemma exec_call_dom:
  "dom (settings_tbl (exec_call H c w)) = insert 1 (dom (settings_tbl w))"
  by (cases c) (auto simp: exec_call_def save_settings_tbl get_settings_tbl save_model_dom
      split: option.splits)

lemma run_dom:
  "dom (settings_tbl (run H cs w)) =
     (if cs = [] then dom (settings_tbl w) else insert 1 (dom (settings_tbl w)))"
  by (induction cs arbitrary: w) (auto simp: exec_call_dom)

lemma marking_hasher_sound: "hasher_sound marking_hasher"
  by (auto simp: hasher_sound_def marking_hasher_def)



lemma delete_old_logs_tbl:
  "logs_tbl (delete_old_logs req qs now w) =
     filter (\<lambda>r. \<not> timestamp r < now - thirty_days) (logs_tbl w)"
  by (simp add: delete_old_logs_def logs_delete_older_def Let_def)

lemma delete_old_logs_messages:
  "messages (delete_old_logs req qs now w) =
     messages w @
       [Old_logs_deleted (length (filter (\<lambda>r. timestamp r < now - thirty_days) (logs_tbl w)))]"
  by (simp add: delete_old_logs_def logs_delete_older_def Let_def)

section \<open>The settings record\<close>

text \<open>
  C1 (amended). \<^verbatim>\<open>save\<close> writes under key 1 whatever instance it is called on, and
  adds no other key; from any store, a non-empty sequence of \<^verbatim>\<open>get_settings\<close>,
  password-set, active-set and \<^verbatim>\<open>save_model\<close> calls leaves the keys that were there
  and key 1. So from a store that holds no settings record under a key other than 1,
  after any non-empty sequence of these calls exactly one settings record exists, the
  one of key 1.
\<close>

theorem settings_singleton:
  assumes "dom (settings_tbl w) \<subseteq> {1}" and "cs \<noteq> []"
  shows "dom (settings_tbl (run H cs w)) = {1} \<and>
         card (dom (settings_tbl (run H cs w))) = 1 \<and>
         dom (settings_tbl (snd (save now self w0))) = insert 1 (dom (settings_tbl w0)) \<and>
         dom (settings_tbl (run H cs0 w0)) =
           (if cs0 = [] then dom (settings_tbl w0) else insert 1 (dom (settings_tbl w0)))"
proof -
  have "dom (settings_tbl (run H cs w)) = insert 1 (dom (settings_tbl w))"
    using assms(2) by (simp add: run_dom)
  with assms(1) have "dom (settings_tbl (run H cs w)) = {1}" by auto
  then show ?thesis by (simp add: save_settings_tbl run_dom)
qed

text \<open>C1, at the empty store and a sequence of the three calls.\<close>

theorem settings_singleton_witness:
  "dom (settings_tbl empty_world) \<subseteq> {1} \<and>
   card (dom (settings_tbl (run marking_hasher
      [Call_get_settings ''s'' 10, Call_set_password obj0 ''secret1'' ''t'' 20,
       Call_set_active obj0 False 30] empty_world))) = 1"
  using settings_singleton [of empty_world
      "[Call_get_settings ''s'' 10, Call_set_password obj0 ''secret1'' ''t'' 20,
        Call_set_active obj0 False 30]" marking_hasher]
  by (simp add: empty_world_def)

text \<open>
  C1 as stated fails from a store that already holds a record under key 2:
  \<^verbatim>\<open>get_settings\<close> adds the record of key 1 and leaves the other, so two records
  exist. (And after the empty sequence on the empty store there is none.)
\<close>

theorem settings_singleton_counterexample:
  "card (dom (settings_tbl (run marking_hasher [Call_get_settings ''s'' 10]
      (empty_world\<lparr>settings_tbl := [2 \<mapsto> row0]\<rparr>)))) = 2 \<and>
   card (dom (settings_tbl (run marking_hasher [] empty_world))) = 0"
  by (simp add: exec_call_dom empty_world_def)

text \<open>
  C2. With a hasher that keeps its contract, for every password \<open>p\<close> of at least 6
  characters: after \<^verbatim>\<open>set_password(p)\<close>, \<^verbatim>\<open>check_password(q)\<close> is true exactly for
  \<open>q = p\<close>; and the same holds of the record read with \<^verbatim>\<open>get_settings\<close> after the
  instance was saved. (The bound on the length is the claim's; the proof does not use it.)
\<close>

theorem set_password_then_check_password:
  assumes "hasher_sound H" and "6 \<le> length p"
  shows "settings_check_password H (set_password H s self p) q = (q = p) \<and>
         (case fst (get_settings H s' now' (snd (save now (set_password H s self p) w))) of
            Inl e \<Rightarrow> False
          | Inr stored \<Rightarrow> settings_check_password H stored q = (q = p))"
  using assms(1)
  by (simp add: hasher_sound_def settings_check_password_def set_password_def
      get_settings_result save_settings_tbl saved_row_def from_db_def split: option.splits)

text \<open>C2, at the password \<^verbatim>\<open>secret1\<close>, checked against itself and against \<^verbatim>\<open>secret2\<close>.\<close>

theorem set_password_then_check_password_witness:
  "hasher_sound marking_hasher \<and> 6 \<le> length ''secret1'' \<and>
   settings_check_password marking_hasher
     (set_password marking_hasher ''s'' obj0 ''secret1'') ''secret1'' \<and>
   \<not> settings_check_password marking_hasher
     (set_password marking_hasher ''s'' obj0 ''secret1'') ''secret2''"
proof -
  have l: "6 \<le> length ''secret1''" by simp
  show ?thesis
    using marking_hasher_sound
      set_password_then_check_password [OF marking_hasher_sound l, of "''s''" obj0 "''secret1''"]
      set_password_then_check_password [OF marking_hasher_sound l, of "''s''" obj0 "''secret2''"]
    by simp
qed




text \<open>
  C4. Saving a new password over an existing record writes the hash and the instance's
  active flag (the stored one, for an instance loaded from the record), and keeps
  \<open>created_at\<close>. It keeps \<open>updated_at\<close> as well: the claim's refresh of \<open>updated_at\<close>
  does not happen on this path, whatever the clock reads.
\<close>

theorem save_update_keeps_updated_at:
  assumes "settings_tbl w 1 = Some r"
  shows "settings_tbl (snd (save now (set_password H s self p) w)) 1 =
           Some (r\<lparr>col_access_password_hash := make_password H s p,
                    col_is_active := is_active self\<rparr>) \<and>
         map_option col_created_at (settings_tbl (snd (save now (set_password H s self p) w)) 1) =
           Some (col_created_at r) \<and>
         map_option col_updated_at (settings_tbl (snd (save now (set_password H s self p) w)) 1) =
           Some (col_updated_at r) \<and>
         map_option col_is_active
           (settings_tbl (snd (save now (set_password H s (from_db 1 r) p) w)) 1) =
           Some (col_is_active r)"
  using assms by (simp add: save_settings_tbl saved_row_def set_password_def from_db_def)

text \<open>
  C4, at a record last updated at time 100 and a save at time 200: the stored
  \<open>updated_at\<close> is still 100.
\<close>

theorem save_update_keeps_updated_at_witness:
  "settings_tbl (empty_world\<lparr>settings_tbl := [1 \<mapsto> row0]\<rparr>) 1 = Some row0 \<and>
   col_updated_at row0 = 100 \<and>
   map_option col_updated_at
     (settings_tbl (snd (save 200 (set_password marking_hasher ''s'' (from_db 1 row0) ''secret1'')
        (empty_world\<lparr>settings_tbl := [1 \<mapsto> row0]\<rparr>))) 1) = Some 100"
  using save_update_keeps_updated_at [of "empty_world\<lparr>settings_tbl := [1 \<mapsto> row0]\<rparr>" row0 200
      marking_hasher "''s''" "from_db 1 row0" "''secret1''"]
  by (simp add: row0_def)







text \<open>
  C8. Two calls of \<^verbatim>\<open>get_settings\<close> in a row, from any store, both return a record;
  the two records have the same password hash and the same \<open>created_at\<close>, and the second
  call leaves the table as the first left it.
\<close>

theorem get_settings_twice_same:
  "\<exists>o1 o2. fst (get_settings H s1 t1 w) = Inr o1 \<and>
      fst (get_settings H s2 t2 (snd (get_settings H s1 t1 w))) = Inr o2 \<and>
      access_password_hash o2 = access_password_hash o1 \<and>
      created_at o2 = created_at o1 \<and>
      settings_tbl (snd (get_settings H s2 t2 (snd (get_settings H s1 t1 w)))) =
        settings_tbl (snd (get_settings H s1 t1 w))"
  by (cases "settings_tbl w 1")
    (simp_all add: get_settings_result get_settings_tbl from_db_def)

text \<open>
  C9. \<^verbatim>\<open>delete\<close> on a settings instance raises nothing and leaves the whole state,
  the stored record with it, as it was; and the admin never grants the permission to
  delete settings.
\<close>

theorem settings_delete_is_noop:
  "delete self w = (Inr (), w) \<and>
   settings_tbl (snd (delete self w)) 1 = settings_tbl w 1 \<and>
   \<not> has_delete_permission req obj"
  by (simp add: delete_def has_delete_permission_def)

section \<open>The activity log\<close>

text \<open>
  C7. \<^verbatim>\<open>delete_old_logs\<close> at clock reading \<open>now\<close> keeps exactly the entries whose
  timestamp is not before \<open>now\<close> minus 30 days, in their order, and reports the number
  of the entries it removed. Nothing older is left then, and a second call that finds
  nothing older than its own cutoff (at the same reading, always) removes nothing and
  reports 0.
\<close>

theorem delete_old_logs_exact:
  "(r \<in> set (logs_tbl (delete_old_logs req qs now w))) =
     (r \<in> set (logs_tbl w) \<and> \<not> timestamp r < now - thirty_days) \<and>
   logs_tbl (delete_old_logs req qs now w) =
     filter (\<lambda>r. \<not> timestamp r < now - thirty_days) (logs_tbl w) \<and>
   messages (delete_old_logs req qs now w) =
     messages w @
       [Old_logs_deleted (length (filter (\<lambda>r. timestamp r < now - thirty_days) (logs_tbl w)))] \<and>
   length (logs_tbl (delete_old_logs req qs now w)) +
     length (filter (\<lambda>r. timestamp r < now - thirty_days) (logs_tbl w)) = length (logs_tbl w) \<and>
   filter (\<lambda>r. timestamp r < now - thirty_days) (logs_tbl (delete_old_logs req qs now w)) = [] \<and>
   (filter (\<lambda>r. timestamp r < now2 - thirty_days) (logs_tbl (delete_old_logs req qs now w)) = []
      \<longrightarrow>
      logs_tbl (delete_old_logs req qs' now2 (delete_old_logs req qs now w)) =
        logs_tbl (delete_old_logs req qs now w) \<and>
      messages (delete_old_logs req qs' now2 (delete_old_logs req qs now w)) =
        messages (delete_old_logs req qs now w) @ [Old_logs_deleted 0]) \<and>
   thirty_days = 2592000000000"
proof -
  let ?old = "\<lambda>r. timestamp r < now - thirty_days"
  let ?w1 = "delete_old_logs req qs now w"
  have tbl: "logs_tbl ?w1 = filter (\<lambda>r. \<not> ?old r) (logs_tbl w)"
    by (rule delete_old_logs_tbl)
  have mem: "(r \<in> set (logs_tbl ?w1)) = (r \<in> set (logs_tbl w) \<and> \<not> timestamp r < now - thirty_days)"
    by (simp add: tbl)
  have len: "length (logs_tbl ?w1) + length (filter ?old (logs_tbl w)) = length (logs_tbl w)"
    using sum_length_filter_compl [of ?old "logs_tbl w"] by (simp add: tbl)
  have none: "filter ?old (logs_tbl ?w1) = []"
    by (simp add: tbl filter_empty_conv)
  have again: "filter (\<lambda>r. timestamp r < now2 - thirty_days) (logs_tbl ?w1) = [] \<longrightarrow>
      logs_tbl (delete_old_logs req qs' now2 ?w1) = logs_tbl ?w1 \<and>
      messages (delete_old_logs req qs' now2 ?w1) = messages ?w1 @ [Old_logs_deleted 0]"
  proof
    assume e: "filter (\<lambda>r. timestamp r < now2 - thirty_days) (logs_tbl ?w1) = []"
    then have "\<forall>x\<in>set (logs_tbl ?w1). \<not> timestamp x < now2 - thirty_days"
      by (simp add: filter_empty_conv)
    then have "filter (\<lambda>r. \<not> timestamp r < now2 - thirty_days) (logs_tbl ?w1) = logs_tbl ?w1"
      by (simp add: filter_id_conv)
    then have "logs_tbl (delete_old_logs req qs' now2 ?w1) = logs_tbl ?w1"
      by (simp only: delete_old_logs_tbl)
    moreover have "messages (delete_old_logs req qs' now2 ?w1) = messages ?w1 @ [Old_logs_deleted 0]"
      by (simp only: delete_old_logs_messages e list.size)
    ultimately show "logs_tbl (delete_old_logs req qs' now2 ?w1) = logs_tbl ?w1 \<and>
      messages (delete_old_logs req qs' now2 ?w1) = messages ?w1 @ [Old_logs_deleted 0]"
      by (rule conjI)
  qed
  have d: "thirty_days = 2592000000000" by (simp add: thirty_days_def)
  have msg: "messages ?w1 = messages w @ [Old_logs_deleted (length (filter ?old (logs_tbl w)))]"
    by (rule delete_old_logs_messages)
  from mem tbl msg len none again d show ?thesis
    by (intro conjI)
qed

text \<open>
  C7, at a table of one old and one recent entry: the old one is removed, 1 is reported,
  and a second call a microsecond later reports 0.
\<close>

theorem delete_old_logs_exact_witness:
  "logs_tbl (delete_old_logs req0 [] 5000000000000
      (empty_world\<lparr>logs_tbl := [log_row 1 0, log_row 2 5000000000000]\<rparr>)) =
     [log_row 2 5000000000000] \<and>
   messages (delete_old_logs req0 [] 5000000000000
      (empty_world\<lparr>logs_tbl := [log_row 1 0, log_row 2 5000000000000]\<rparr>)) =
     [Old_logs_deleted 1] \<and>
   messages (delete_old_logs req0 [] 5000000000001 (delete_old_logs req0 [] 5000000000000
      (empty_world\<lparr>logs_tbl := [log_row 1 0, log_row 2 5000000000000]\<rparr>))) =
     [Old_logs_deleted 1, Old_logs_deleted 0]"
  using delete_old_logs_exact [of "log_row 1 0" req0 "[]" 5000000000000
      "empty_world\<lparr>logs_tbl := [log_row 1 0, log_row 2 5000000000000]\<rparr>" 5000000000001 "[]"]
  by (simp add: log_row_def empty_world_def)

text \<open>
  C10. The result of \<^verbatim>\<open>delete_old_logs\<close> does not depend on the selection: it is the
  same for every \<open>queryset\<close>. An entry of the table older than the cutoff is removed
  also when it is not selected, and an entry that is not older is kept also when it is
  selected.
\<close>

theorem delete_old_logs_ignores_selection:
  "delete_old_logs req qs now w = delete_old_logs req [] now w \<and>
   (r \<in> set (logs_tbl w) \<and> r \<notin> set qs \<and> timestamp r < now - thirty_days
      \<longrightarrow> r \<notin> set (logs_tbl (delete_old_logs req qs now w))) \<and>
   (r \<in> set (logs_tbl w) \<and> r \<in> set qs \<and> \<not> timestamp r < now - thirty_days
      \<longrightarrow> r \<in> set (logs_tbl (delete_old_logs req qs now w)))"
  by (simp add: delete_old_logs_tbl) (simp add: delete_old_logs_def)

text \<open>C10, at a table of an old entry that is not selected and a recent one that is.\<close>

theorem delete_old_logs_ignores_selection_witness:
  "log_row 1 0 \<in> set [log_row 1 0, log_row 2 5000000000000] \<and>
   log_row 1 0 \<notin> set [log_row 2 5000000000000] \<and>
   timestamp (log_row 1 0) < 5000000000000 - thirty_days \<and>
   \<not> timestamp (log_row 2 5000000000000) < 5000000000000 - thirty_days \<and>
   logs_tbl (delete_old_logs req0 [log_row 2 5000000000000] 5000000000000
      (empty_world\<lparr>logs_tbl := [log_row 1 0, log_row 2 5000000000000]\<rparr>)) =
     [log_row 2 5000000000000]"
  using delete_old_logs_ignores_selection [of req0 "[log_row 2 5000000000000]" 5000000000000
      "empty_world\<lparr>logs_tbl := [log_row 1 0, log_row 2 5000000000000]\<rparr>" "log_row 1 0"]
  by (simp add: delete_old_logs_tbl log_row_def thirty_days_def empty_world_def)

end
